theory Spec2Isabelle
  imports Main "HOL-Library.AList"
begin

section \<open>The Floosak payment client (src/src/client.ts)\<close>

text \<open>
  The class \<^verbatim>\<open>FloosakClient\<close> holds a configuration, an optional bearer token and
  an axios instance. Its five remote methods issue one HTTP POST each; the three payment
  methods first call \<^verbatim>\<open>ensureAuthenticated\<close>. The model is sequential: a method takes
  the client and the behaviour of the network for its request, and returns what the
  caller gets, the requests handed to the network, and the client afterwards.
\<close>

subsection \<open>Values on the wire\<close>

text \<open>
  Modelled from the spec: the payload types that the client imports from \<^verbatim>\<open>./types\<close>
  are not among the sources; the specification gives each as a flat mapping of named
  fields to strings and numbers. A request body is a JSON value here; the client never
  looks inside a payload it is given.
\<close>

datatype json =
    JNull
  | JBool bool
  | JNum int
  | JStr string
  | JArr "json list"
  | JObj "(string \<times> json) list"

text \<open>
  JavaScript's truthiness at the type \<^verbatim>\<open>string | undefined\<close>, as tested by
  \<^verbatim>\<open>if (this.token)\<close>, \<^verbatim>\<open>if (!this.token)\<close> and \<^verbatim>\<open>response.data.key\<close>:
  \<^verbatim>\<open>undefined\<close> and the empty string are falsy, every other string is truthy.
\<close>

primrec truthy :: "string option \<Rightarrow> bool" where
  "truthy None = False"
| "truthy (Some s) = (s \<noteq> [])"

subsection \<open>Configuration and client state\<close>

text \<open>
  Modelled from the spec: the declaration of \<^verbatim>\<open>FloosakClientConfig\<close> in \<^verbatim>\<open>./types\<close>
  is not among the sources; the specification gives it as \<^verbatim>\<open>{baseUrl: string, phone:
  string, shortCode: string, token: optional string}\<close>, the four fields the constructor
  reads. The client keeps \<^verbatim>\<open>Omit<FloosakClientConfig, 'token'>\<close>, which is the record
  without its last field.
\<close>

record Config =
  baseUrl :: string
  phone :: string
  shortCode :: string

record FloosakClientConfig = Config +
  cfg_token :: "string option"

text \<open>What \<^verbatim>\<open>axios.create\<close> is given: the defaults every request starts from.\<close>

record AxiosDefaults =
  baseURL :: string
  headers :: "(string \<times> string) list"

text \<open>
  A request as it reaches the network: the defaults, the HTTP method (the \<^verbatim>\<open>method\<close>
  of axios), the path and the body.
\<close>

record AxiosRequestConfig = AxiosDefaults +
  http_method :: string
  url :: string
  data :: json

record FloosakClient =
  axiosInstance :: AxiosDefaults
  token :: "string option"
  config :: Config

text \<open>
  What a caller of an async method can get: the local \<^verbatim>\<open>Error\<close> with its message, or
  the rejection of the HTTP call, whose value \<open>'e\<close> the client never inspects.
\<close>

datatype 'e thrown = Error string | Rejected 'e

text \<open>
  The network for one request: it rejects with an error or resolves with the
  response's \<^verbatim>\<open>data\<close>.
\<close>

type_synonym ('e, 'r) adapter = "AxiosRequestConfig \<Rightarrow> 'e + 'r"

text \<open>
  The outcome of a method call: the value returned or thrown, the requests issued (in
  order), and the client afterwards.
\<close>

record 'a returned =
  result :: 'a
  sent :: "AxiosRequestConfig list"
  client :: FloosakClient

subsection \<open>Construction\<close>

definition axios_create :: "string \<Rightarrow> AxiosDefaults" where
  "axios_create base =
     \<lparr>baseURL = base,
      headers = [(''Content-Type'', ''application/json''),
                 (''Accept'', ''application/json''),
                 (''x-channel'', ''merchant'')]\<rparr>"

definition constructor :: "FloosakClientConfig \<Rightarrow> FloosakClient" where
  "constructor cfg =
     \<lparr>axiosInstance = axios_create (baseUrl cfg),
      token = cfg_token cfg,
      config = \<lparr>baseUrl = baseUrl cfg, phone = phone cfg, shortCode = shortCode cfg\<rparr>\<rparr>"

text \<open>
  The request interceptor registered by the constructor. It runs on every request of the
  instance and reads \<^verbatim>\<open>this.token\<close> at that moment.
\<close>

definition interceptor :: "FloosakClient \<Rightarrow> AxiosRequestConfig \<Rightarrow> AxiosRequestConfig" where
  "interceptor c axiosConfig =
     (if truthy (token c)
      then (case token c of
              Some t \<Rightarrow> axiosConfig\<lparr>headers := AList.update ''Authorization'' (''Bearer '' @ t) (headers axiosConfig)\<rparr>
            | None \<Rightarrow> axiosConfig)
      else axiosConfig)"

definition getToken :: "FloosakClient \<Rightarrow> string option" where
  "getToken c = token c"

subsection \<open>Issuing a request\<close>

text \<open>
  The request that \<^verbatim>\<open>this.axiosInstance.post(path, payload)\<close> builds: the instance's
  defaults with the method, path and body, passed through the interceptor.
\<close>

definition request_config :: "FloosakClient \<Rightarrow> string \<Rightarrow> json \<Rightarrow> AxiosRequestConfig" where
  "request_config c path payload =
     interceptor c
       \<lparr>baseURL = baseURL (axiosInstance c), headers = headers (axiosInstance c),
        http_method = ''post'', url = path, data = payload\<rparr>"

text \<open>
  \<^verbatim>\<open>const response = await this.axiosInstance.post(path, payload)\<close>: one request is
  handed to the network; a rejection is thrown on to the caller by \<^verbatim>\<open>await\<close>.
\<close>

definition post :: "FloosakClient \<Rightarrow> ('e, 'r) adapter \<Rightarrow> string \<Rightarrow> json \<Rightarrow> ('e thrown + 'r) returned" where
  "post c http path payload =
     (let req = request_config c path payload in
      \<lparr>result = (case http req of Inl e \<Rightarrow> Inl (Rejected e) | Inr d \<Rightarrow> Inr d),
       sent = [req],
       client = c\<rparr>)"

subsection \<open>Authentication\<close>

definition requestAuthKey :: "('e, 'r) adapter \<Rightarrow> FloosakClient \<Rightarrow> ('e thrown + 'r) returned" where
  "requestAuthKey http c =
     (let payload = JObj [(''phone'', JStr (phone (config c))),
                          (''short_code'', JStr (shortCode (config c)))]
      in post c http ''/api/v1/request/key'' payload)"

text \<open>
  Modelled from the spec: the declaration of \<^verbatim>\<open>VerifyKeyResponse\<close> in \<^verbatim>\<open>./types\<close>
  is not among the sources; the specification gives the response body as \<^verbatim>\<open>{key,
  ...account fields}\<close> and the token as an opaque string. The account's fields are the
  record's extension here, and \<open>key = None\<close> is a body without the field. The method
  also allows for a falsy \<^verbatim>\<open>response.data\<close> (axios gives the empty string for an
  empty body): that is \<open>None\<close> for the data.
\<close>

record VerifyKeyResponse =
  key :: "string option"

text \<open>The value of \<^verbatim>\<open>response.data && response.data.key\<close>, as far as its truthiness goes.\<close>

definition response_key :: "'a VerifyKeyResponse_scheme option \<Rightarrow> string option" where
  "response_key d = (case d of None \<Rightarrow> None | Some r \<Rightarrow> key r)"

definition verifyAuthKey ::
  "('e, 'a VerifyKeyResponse_scheme option) adapter \<Rightarrow> json \<Rightarrow> FloosakClient \<Rightarrow>
     ('e thrown + 'a VerifyKeyResponse_scheme option) returned" where
  "verifyAuthKey http payload c =
     (let r = post c http ''/api/v1/verify/key'' payload in
      case result r of
        Inl err \<Rightarrow> r
      | Inr d \<Rightarrow>
          if truthy (response_key d)
          then r\<lparr>client := (client r)\<lparr>token := response_key d\<rparr>\<rparr>
          else r)"

subsection \<open>Payments\<close>

definition not_authenticated :: "'e thrown" where
  "not_authenticated =
     Error ''Client is not authenticated. Please call requestAuthKey() and verifyAuthKey() first, or initialize the client with a valid token.''"

definition ensureAuthenticated :: "FloosakClient \<Rightarrow> 'e thrown + unit" where
  "ensureAuthenticated c = (if \<not> truthy (token c) then Inl not_authenticated else Inr ())"

definition purchaseRequest :: "('e, 'r) adapter \<Rightarrow> json \<Rightarrow> FloosakClient \<Rightarrow> ('e thrown + 'r) returned" where
  "purchaseRequest http payload c =
     (case ensureAuthenticated c of
        Inl err \<Rightarrow> \<lparr>result = Inl err, sent = [], client = c\<rparr>
      | Inr _ \<Rightarrow> post c http ''/api/v1/merchant/p2mcl'' payload)"

definition purchaseConfirm :: "('e, 'r) adapter \<Rightarrow> json \<Rightarrow> FloosakClient \<Rightarrow> ('e thrown + 'r) returned" where
  "purchaseConfirm http payload c =
     (case ensureAuthenticated c of
        Inl err \<Rightarrow> \<lparr>result = Inl err, sent = [], client = c\<rparr>
      | Inr _ \<Rightarrow> post c http ''/api/v1/merchant/p2mcl/confirm'' payload)"

definition refund :: "('e, 'r) adapter \<Rightarrow> json \<Rightarrow> FloosakClient \<Rightarrow> ('e thrown + 'r) returned" where
  "refund http payload c =
     (case ensureAuthenticated c of
        Inl err \<Rightarrow> \<lparr>result = Inl err, sent = [], client = c\<rparr>
      | Inr _ \<Rightarrow> post c http ''/api/v1/merchant/p2mcl/refund'' payload)"

subsection \<open>Sequences of calls\<close>

text \<open>
  A call of one of the five remote methods, with its argument and with what the network
  does for its request at that time. \<open>'r\<close> is the data of the responses that are only
  handed back, \<open>'a\<close> the account fields of a verify-key response.
\<close>

datatype ('e, 'r, 'a) call =
    RequestAuthKey "('e, 'r) adapter"
  | VerifyAuthKey "('e, 'a VerifyKeyResponse_scheme option) adapter" json
  | PurchaseRequest "('e, 'r) adapter" json
  | PurchaseConfirm "('e, 'r) adapter" json
  | Refund "('e, 'r) adapter" json

text \<open>The requests a call issues and the client it leaves.\<close>

primrec perform :: "('e, 'r, 'a) call \<Rightarrow> FloosakClient \<Rightarrow> AxiosRequestConfig list \<times> FloosakClient" where
  "perform (RequestAuthKey http) c = (let r = requestAuthKey http c in (sent r, client r))"
| "perform (VerifyAuthKey http payload) c = (let r = verifyAuthKey http payload c in (sent r, client r))"
| "perform (PurchaseRequest http payload) c = (let r = purchaseRequest http payload c in (sent r, client r))"
| "perform (PurchaseConfirm http payload) c = (let r = purchaseConfirm http payload c in (sent r, client r))"
| "perform (Refund http payload) c = (let r = refund http payload c in (sent r, client r))"

text \<open>The client after a sequence of calls, each made when the one before has settled.\<close>

primrec run :: "('e, 'r, 'a) call list \<Rightarrow> FloosakClient \<Rightarrow> FloosakClient" where
  "run [] c = c"
| "run (x # xs) c = run xs (snd (perform x c))"

text \<open>The value of a header of a request, if the request carries it.\<close>

definition header :: "string \<Rightarrow> AxiosRequestConfig \<Rightarrow> string option" where
  "header name req = map_of (headers req) name"

text \<open>
  For examples: the configuration of the README with a given token, and two networks, one
  that resolves with given data and one that rejects.
\<close>

definition merchant :: "string option \<Rightarrow> FloosakClientConfig" where
  "merchant t =
     \<lparr>baseUrl = ''https://api.your-floosak-provider.com'', phone = ''967705111013'',
      shortCode = ''777715'', cfg_token = t\<rparr>"

definition respond :: "'r \<Rightarrow> ('e, 'r) adapter" where
  "respond d req = Inr d"

definition reject :: "'e \<Rightarrow> ('e, 'r) adapter" where
  "reject e req = Inl e"

section \<open>Basic facts\<close>

lemmas op_defs =
  requestAuthKey_def verifyAuthKey_def purchaseRequest_def purchaseConfirm_def refund_def
  ensureAuthenticated_def

lemmas example_defs =
  constructor_def merchant_def axios_create_def request_config_def interceptor_def
  respond_def reject_def header_def getToken_def response_key_def not_authenticated_def

lemma post_client [simp]: "client (post c http path payload) = c"
  by (simp add: post_def Let_def)

lemma post_sent [simp]: "sent (post c http path payload) = [request_config c path payload]"
  by (simp add: post_def Let_def)

lemma post_result [simp]:
  "result (post c http path payload) =
     (case http (request_config c path payload) of Inl e \<Rightarrow> Inl (Rejected e) | Inr d \<Rightarrow> Inr d)"
  by (simp add: post_def Let_def)

text \<open>The interceptor touches the headers only, and there only \<^verbatim>\<open>Authorization\<close>.\<close>

lemma request_config_fields:
  "http_method (request_config c path payload) = ''post''"
  "url (request_config c path payload) = path"
  "data (request_config c path payload) = payload"
  "baseURL (request_config c path payload) = baseURL (axiosInstance c)"
  by (simp_all add: request_config_def interceptor_def split: option.splits)

lemma header_request_config:
  "header name (request_config c path payload) =
     (if name = ''Authorization'' \<and> truthy (token c)
      then map_option (\<lambda>t. ''Bearer '' @ t) (token c)
      else map_of (headers (axiosInstance c)) name)"
  by (cases "token c")
     (auto simp add: header_def request_config_def interceptor_def update_conv')

subsection \<open>What a call can change, and what it sends\<close>

lemma perform_frame: "snd (perform x c) = c\<lparr>token := token (snd (perform x c))\<rparr>"
  by (cases x) (simp_all add: Let_def op_defs split: sum.splits)

lemma perform_truthy: "truthy (token c) \<Longrightarrow> truthy (token (snd (perform x c)))"
  by (cases x) (simp_all add: Let_def op_defs split: sum.splits)

lemma sent_perform:
  "r \<in> set (fst (perform x c)) \<Longrightarrow> \<exists>path payload. r = request_config c path payload"
  by (cases x) (auto simp add: Let_def op_defs split: sum.splits if_splits)

lemma run_frame: "run cs c = c\<lparr>token := token (run cs c)\<rparr>"
proof (induction cs arbitrary: c)
  case Nil
  show ?case by simp
next
  case (Cons x xs)
  have "run (x # xs) c = run xs (snd (perform x c))"
    by simp
  also have "\<dots> = (snd (perform x c))\<lparr>token := token (run xs (snd (perform x c)))\<rparr>"
    by (rule Cons.IH)
  also have "\<dots> = c\<lparr>token := token (run xs (snd (perform x c)))\<rparr>"
    by (subst perform_frame) simp
  finally show ?case
    by simp
qed

lemma run_axiosInstance: "axiosInstance (run cs c) = axiosInstance c"
  by (subst run_frame) simp

lemma run_config: "config (run cs c) = config c"
  by (subst run_frame) simp

lemma constructed_axiosInstance:
  "axiosInstance (run cs (constructor cfg)) = axios_create (baseUrl cfg)"
  by (simp add: run_axiosInstance constructor_def)

section \<open>The authentication guard of the payment methods\<close>

text \<open>
  C1, as stated, at a client constructed with the empty string as its token: the token is
  not absent (\<^verbatim>\<open>getToken()\<close> returns the empty string, not \<^verbatim>\<open>undefined\<close>), yet
  \<^verbatim>\<open>purchaseRequest\<close> throws the not-authenticated error and issues no request, because
  \<^verbatim>\<open>!this.token\<close> holds of the empty string too.
\<close>

theorem payment_empty_token_counterexample:
  "getToken (constructor (merchant (Some ''''))) \<noteq> None
   \<and> result (purchaseRequest (respond JNull :: (unit, json) adapter) JNull
        (constructor (merchant (Some '''')))) = Inl not_authenticated
   \<and> sent (purchaseRequest (respond JNull :: (unit, json) adapter) JNull
        (constructor (merchant (Some '''')))) = []"
  by (simp add: op_defs example_defs)

text \<open>
  C1 (amended): for every client state, each of \<^verbatim>\<open>purchaseRequest\<close>,
  \<^verbatim>\<open>purchaseConfirm\<close> and \<^verbatim>\<open>refund\<close> throws the not-authenticated error if and
  only if the token is absent or the empty string; in that case no request is issued, and
  when the token is a non-empty string the request is handed to the network.
\<close>

theorem payment_guard:
  "(result (purchaseRequest http payload c) = Inl not_authenticated \<longleftrightarrow> \<not> truthy (token c))
   \<and> (result (purchaseConfirm http payload c) = Inl not_authenticated \<longleftrightarrow> \<not> truthy (token c))
   \<and> (result (refund http payload c) = Inl not_authenticated \<longleftrightarrow> \<not> truthy (token c))
   \<and> (\<not> truthy (token c) \<longrightarrow>
        sent (purchaseRequest http payload c) = []
        \<and> sent (purchaseConfirm http payload c) = []
        \<and> sent (refund http payload c) = [])
   \<and> (truthy (token c) \<longrightarrow>
        sent (purchaseRequest http payload c) = [request_config c ''/api/v1/merchant/p2mcl'' payload]
        \<and> sent (purchaseConfirm http payload c) = [request_config c ''/api/v1/merchant/p2mcl/confirm'' payload]
        \<and> sent (refund http payload c) = [request_config c ''/api/v1/merchant/p2mcl/refund'' payload])"
  by (auto simp add: op_defs not_authenticated_def split: sum.splits)

text \<open>The guard at a client without a token and at one with the token \<^verbatim>\<open>tok\<close>.\<close>

theorem payment_guard_witness:
  "\<not> truthy (token (constructor (merchant None)))
   \<and> result (refund (respond JNull :: (unit, json) adapter) JNull (constructor (merchant None)))
       = Inl not_authenticated
   \<and> sent (refund (respond JNull :: (unit, json) adapter) JNull (constructor (merchant None))) = []
   \<and> truthy (token (constructor (merchant (Some ''tok''))))
   \<and> result (refund (respond JNull :: (unit, json) adapter) JNull (constructor (merchant (Some ''tok''))))
       \<noteq> Inl not_authenticated
   \<and> sent (refund (respond JNull :: (unit, json) adapter) JNull (constructor (merchant (Some ''tok''))))
       = [request_config (constructor (merchant (Some ''tok''))) ''/api/v1/merchant/p2mcl/refund'' JNull]"
  using payment_guard [of "respond JNull :: (unit, json) adapter" JNull "constructor (merchant None)"]
    payment_guard [of "respond JNull :: (unit, json) adapter" JNull "constructor (merchant (Some ''tok''))"]
  by (simp add: constructor_def merchant_def)

section \<open>Verifying the key\<close>

text \<open>
  C2, as stated, at a response whose \<^verbatim>\<open>key\<close> field is the empty string: the response
  has the field, but \<^verbatim>\<open>response.data.key\<close> is falsy, so the token set before stays
  and \<^verbatim>\<open>getToken()\<close> does not return the field's value.
\<close>

theorem verifyAuthKey_empty_key_counterexample:
  "response_key (Some \<lparr>key = Some ''''\<rparr>) = Some ''''
   \<and> getToken (client (verifyAuthKey
         (respond (Some \<lparr>key = Some ''''\<rparr>) :: (unit, VerifyKeyResponse option) adapter)
         (JObj [(''request_id'', JStr ''r1''), (''otp'', JStr ''123456'')])
         (constructor (merchant (Some ''old''))))) = Some ''old''"
  by (simp add: op_defs example_defs post_def)

text \<open>
  C2 (amended): for every client state and every \<^verbatim>\<open>verifyAuthKey\<close> call whose request
  the network answers with data \<open>d\<close>, the call returns \<open>d\<close> whether or not it has a
  \<^verbatim>\<open>key\<close> field; and if \<open>d\<close> has a \<^verbatim>\<open>key\<close> field with a non-empty value \<open>k\<close>,
  then \<open>k\<close> replaces the token, whatever it was, nothing else of the client changes, and
  \<^verbatim>\<open>getToken()\<close> returns \<open>k\<close> afterwards.
\<close>

theorem verifyAuthKey_stores_key:
  assumes "http (request_config c ''/api/v1/verify/key'' payload) = Inr d"
  shows "result (verifyAuthKey http payload c) = Inr d
    \<and> (\<forall>k. response_key d = Some k \<and> k \<noteq> [] \<longrightarrow>
          getToken (client (verifyAuthKey http payload c)) = Some k
          \<and> client (verifyAuthKey http payload c) = c\<lparr>token := Some k\<rparr>)"
  using assms by (simp add: verifyAuthKey_def Let_def getToken_def)

text \<open>A response with the key \<^verbatim>\<open>new\<close> at a client holding \<^verbatim>\<open>old\<close>, and one without a key.\<close>

theorem verifyAuthKey_stores_key_witness:
  "(respond (Some \<lparr>key = Some ''new''\<rparr>) :: (unit, VerifyKeyResponse option) adapter)
       (request_config (constructor (merchant (Some ''old''))) ''/api/v1/verify/key'' JNull)
     = Inr (Some \<lparr>key = Some ''new''\<rparr>)
   \<and> response_key (Some \<lparr>key = Some ''new''\<rparr>) = Some ''new''
   \<and> result (verifyAuthKey
         (respond (Some \<lparr>key = Some ''new''\<rparr>) :: (unit, VerifyKeyResponse option) adapter)
         JNull (constructor (merchant (Some ''old'')))) = Inr (Some \<lparr>key = Some ''new''\<rparr>)
   \<and> getToken (client (verifyAuthKey
         (respond (Some \<lparr>key = Some ''new''\<rparr>) :: (unit, VerifyKeyResponse option) adapter)
         JNull (constructor (merchant (Some ''old''))))) = Some ''new''
   \<and> result (verifyAuthKey
         (respond (Some \<lparr>key = None\<rparr>) :: (unit, VerifyKeyResponse option) adapter)
         JNull (constructor (merchant (Some ''old'')))) = Inr (Some \<lparr>key = None\<rparr>)"
  using verifyAuthKey_stores_key
      [of "respond (Some \<lparr>key = Some ''new''\<rparr>) :: (unit, VerifyKeyResponse option) adapter"
          "constructor (merchant (Some ''old''))" JNull "Some \<lparr>key = Some ''new''\<rparr>"]
    verifyAuthKey_stores_key
      [of "respond (Some \<lparr>key = None\<rparr>) :: (unit, VerifyKeyResponse option) adapter"
          "constructor (merchant (Some ''old''))" JNull "Some \<lparr>key = None\<rparr>"]
  by (simp add: respond_def response_key_def getToken_def)

text \<open>
  C3: for every client state, when the response to \<^verbatim>\<open>verifyAuthKey\<close> has no
  \<^verbatim>\<open>key\<close> field (or no body at all), the client is as before the call, and
  \<^verbatim>\<open>getToken()\<close> returns what it returned before.
\<close>

theorem verifyAuthKey_without_key:
  assumes "http (request_config c ''/api/v1/verify/key'' payload) = Inr d"
    and "response_key d = None"
  shows "getToken (client (verifyAuthKey http payload c)) = getToken c
    \<and> client (verifyAuthKey http payload c) = c"
  using assms by (simp add: verifyAuthKey_def Let_def)

text \<open>A response without a key at a client holding the token \<^verbatim>\<open>old\<close>.\<close>

theorem verifyAuthKey_without_key_witness:
  "(respond (Some \<lparr>key = None\<rparr>) :: (unit, VerifyKeyResponse option) adapter)
       (request_config (constructor (merchant (Some ''old''))) ''/api/v1/verify/key'' JNull)
     = Inr (Some \<lparr>key = None\<rparr>)
   \<and> response_key (Some \<lparr>key = None\<rparr>) = None
   \<and> getToken (client (verifyAuthKey
         (respond (Some \<lparr>key = None\<rparr>) :: (unit, VerifyKeyResponse option) adapter)
         JNull (constructor (merchant (Some ''old''))))) = Some ''old''"
  using verifyAuthKey_without_key
      [of "respond (Some \<lparr>key = None\<rparr>) :: (unit, VerifyKeyResponse option) adapter"
          "constructor (merchant (Some ''old''))" JNull "Some \<lparr>key = None\<rparr>"]
  by (simp add: example_defs)

section \<open>Requesting the key\<close>

text \<open>
  C4: \<^verbatim>\<open>requestAuthKey\<close> has no authentication guard. On a client constructed from
  \<open>cfg\<close>, after any sequence of calls and so with or without a token, it issues exactly
  one request: a POST to \<^verbatim>\<open>/api/v1/request/key\<close> under the configured base URL, with
  the body \<^verbatim>\<open>{phone, short_code}\<close> of the configuration. It returns the data of the
  response as the network gave it (or throws the network's rejection), and leaves the
  client as it was.
\<close>

theorem requestAuthKey_request:
  "\<exists>r. sent (requestAuthKey http (run cs (constructor cfg))) = [r]
     \<and> http_method r = ''post''
     \<and> baseURL r = baseUrl cfg
     \<and> url r = ''/api/v1/request/key''
     \<and> data r = JObj [(''phone'', JStr (phone cfg)), (''short_code'', JStr (shortCode cfg))]
     \<and> result (requestAuthKey http (run cs (constructor cfg))) =
          (case http r of Inl e \<Rightarrow> Inl (Rejected e) | Inr d \<Rightarrow> Inr d)
     \<and> client (requestAuthKey http (run cs (constructor cfg))) = run cs (constructor cfg)"
proof -
  let ?c = "run cs (constructor cfg)"
  let ?body = "JObj [(''phone'', JStr (phone cfg)), (''short_code'', JStr (shortCode cfg))]"
  let ?r = "request_config ?c ''/api/v1/request/key'' ?body"
  have cfg: "config ?c = \<lparr>baseUrl = baseUrl cfg, phone = phone cfg, shortCode = shortCode cfg\<rparr>"
    by (simp add: run_config constructor_def)
  have call: "requestAuthKey http ?c = post ?c http ''/api/v1/request/key'' ?body"
    by (simp add: requestAuthKey_def cfg)
  have base: "baseURL ?r = baseUrl cfg"
    by (simp add: request_config_fields constructed_axiosInstance axios_create_def)
  have "sent (requestAuthKey http ?c) = [?r]"
    by (simp add: call)
  moreover have "result (requestAuthKey http ?c) =
      (case http ?r of Inl e \<Rightarrow> Inl (Rejected e) | Inr d \<Rightarrow> Inr d)"
    by (simp add: call)
  moreover have "client (requestAuthKey http ?c) = ?c"
    by (simp add: call)
  ultimately show ?thesis
    using base by (simp add: request_config_fields)
qed

text \<open>
  The example of the README: phone \<^verbatim>\<open>967705111013\<close>, short code \<^verbatim>\<open>777715\<close>, no
  token, and a network that answers \<^verbatim>\<open>{request_id: "abc"}\<close>.
\<close>

theorem requestAuthKey_request_witness:
  "sent (requestAuthKey
       (respond (JObj [(''request_id'', JStr ''abc'')]) :: (unit, json) adapter)
       (run ([] :: (unit, json, unit) call list) (constructor (merchant None))))
     = [\<lparr>baseURL = ''https://api.your-floosak-provider.com'',
         headers = [(''Content-Type'', ''application/json''),
                    (''Accept'', ''application/json''),
                    (''x-channel'', ''merchant'')],
         http_method = ''post'',
         url = ''/api/v1/request/key'',
         data = JObj [(''phone'', JStr ''967705111013''), (''short_code'', JStr ''777715'')]\<rparr>]
   \<and> result (requestAuthKey
       (respond (JObj [(''request_id'', JStr ''abc'')]) :: (unit, json) adapter)
       (run ([] :: (unit, json, unit) call list) (constructor (merchant None))))
     = Inr (JObj [(''request_id'', JStr ''abc'')])"
  using requestAuthKey_request
      [of "respond (JObj [(''request_id'', JStr ''abc'')]) :: (unit, json) adapter"
          "[] :: (unit, json, unit) call list" "merchant None"]
  by (simp add: requestAuthKey_def example_defs)

section \<open>Headers\<close>

text \<open>
  C5, as stated, at a client constructed with the empty string as its token: a token is
  there, but the request of \<^verbatim>\<open>requestAuthKey\<close> carries no \<^verbatim>\<open>Authorization\<close>
  header, because the interceptor tests \<^verbatim>\<open>if (this.token)\<close>.
\<close>

theorem authorization_empty_token_counterexample:
  "getToken (constructor (merchant (Some ''''))) = Some ''''
   \<and> map (header ''Authorization'')
        (sent (requestAuthKey (respond JNull :: (unit, json) adapter)
           (constructor (merchant (Some ''''))))) = [None]"
  by (simp add: requestAuthKey_def example_defs)

text \<open>
  C5 (amended): on a client made by the constructor, after any sequence of calls, every
  request issued by any of the five remote methods carries \<^verbatim>\<open>Content-Type:
  application/json\<close>, \<^verbatim>\<open>Accept: application/json\<close> and \<^verbatim>\<open>x-channel: merchant\<close>,
  whatever the token; and whenever the token is a non-empty string \<open>t\<close> when the request
  is built, the request also carries \<^verbatim>\<open>Authorization: Bearer t\<close>.
\<close>

theorem request_headers:
  assumes "r \<in> set (fst (perform x (run cs (constructor cfg))))"
  shows "header ''Content-Type'' r = Some ''application/json''
     \<and> header ''Accept'' r = Some ''application/json''
     \<and> header ''x-channel'' r = Some ''merchant''
     \<and> (\<forall>t. token (run cs (constructor cfg)) = Some t \<and> t \<noteq> [] \<longrightarrow>
            header ''Authorization'' r = Some (''Bearer '' @ t))"
proof -
  let ?c = "run cs (constructor cfg)"
  obtain path payload where r: "r = request_config ?c path payload"
    using assms sent_perform by blast
  show ?thesis
    by (simp add: r header_request_config constructed_axiosInstance axios_create_def)
qed

text \<open>
  A client constructed without a token, then given the token \<^verbatim>\<open>tok\<close> by
  \<^verbatim>\<open>verifyAuthKey\<close>, then asked for a refund.
\<close>

theorem request_headers_witness:
  "request_config
       (run [VerifyAuthKey (respond (Some \<lparr>key = Some ''tok''\<rparr>)) JNull :: (unit, json, unit) call]
          (constructor (merchant None)))
       ''/api/v1/merchant/p2mcl/refund'' JNull
     \<in> set (fst (perform (Refund (respond JNull) JNull)
          (run [VerifyAuthKey (respond (Some \<lparr>key = Some ''tok''\<rparr>)) JNull :: (unit, json, unit) call]
             (constructor (merchant None)))))
   \<and> token (run [VerifyAuthKey (respond (Some \<lparr>key = Some ''tok''\<rparr>)) JNull :: (unit, json, unit) call]
        (constructor (merchant None))) = Some ''tok''
   \<and> header ''x-channel''
        (request_config
           (run [VerifyAuthKey (respond (Some \<lparr>key = Some ''tok''\<rparr>)) JNull :: (unit, json, unit) call]
              (constructor (merchant None)))
           ''/api/v1/merchant/p2mcl/refund'' JNull) = Some ''merchant''
   \<and> header ''Authorization''
        (request_config
           (run [VerifyAuthKey (respond (Some \<lparr>key = Some ''tok''\<rparr>)) JNull :: (unit, json, unit) call]
              (constructor (merchant None)))
           ''/api/v1/merchant/p2mcl/refund'' JNull) = Some ''Bearer tok''"
  using request_headers
      [of "request_config
             (run [VerifyAuthKey (respond (Some \<lparr>key = Some ''tok''\<rparr>)) JNull :: (unit, json, unit) call]
                (constructor (merchant None)))
             ''/api/v1/merchant/p2mcl/refund'' JNull"
          "Refund (respond JNull) JNull"
          "[VerifyAuthKey (respond (Some \<lparr>key = Some ''tok''\<rparr>)) JNull]"
          "merchant None"]
  by (simp add: op_defs example_defs post_def Let_def)

section \<open>Failures of the HTTP call\<close>

text \<open>
  C6: for each of the five remote methods, if the network rejects the request the method
  issued, with an error \<open>e\<close>, then the method throws \<open>e\<close> itself, that request is the
  only one it issued, and the client (token and configuration) is as before the call.
\<close>

theorem rejection_propagates:
  "(r \<in> set (sent (requestAuthKey http c)) \<and> http r = Inl e \<longrightarrow>
      requestAuthKey http c = \<lparr>result = Inl (Rejected e), sent = [r], client = c\<rparr>)
   \<and> (r \<in> set (sent (verifyAuthKey httpv payload c)) \<and> httpv r = Inl e \<longrightarrow>
      verifyAuthKey httpv payload c = \<lparr>result = Inl (Rejected e), sent = [r], client = c\<rparr>)
   \<and> (r \<in> set (sent (purchaseRequest http payload c)) \<and> http r = Inl e \<longrightarrow>
      purchaseRequest http payload c = \<lparr>result = Inl (Rejected e), sent = [r], client = c\<rparr>)
   \<and> (r \<in> set (sent (purchaseConfirm http payload c)) \<and> http r = Inl e \<longrightarrow>
      purchaseConfirm http payload c = \<lparr>result = Inl (Rejected e), sent = [r], client = c\<rparr>)
   \<and> (r \<in> set (sent (refund http payload c)) \<and> http r = Inl e \<longrightarrow>
      refund http payload c = \<lparr>result = Inl (Rejected e), sent = [r], client = c\<rparr>)"
  by (auto simp add: op_defs post_def Let_def split: sum.splits if_splits)

text \<open>
  A network that rejects with \<^verbatim>\<open>timeout\<close>, at a client with the token \<^verbatim>\<open>tok\<close>,
  for each of the five methods.
\<close>

theorem rejection_propagates_witness:
  "request_config (constructor (merchant (Some ''tok'')))
       ''/api/v1/request/key'' (JObj [(''phone'', JStr ''967705111013''), (''short_code'', JStr ''777715'')])
     \<in> set (sent (requestAuthKey (reject ''timeout'' :: (string, json) adapter) (constructor (merchant (Some ''tok'')))))
   \<and> (reject ''timeout'' :: (string, json) adapter)
        (request_config (constructor (merchant (Some ''tok'')))
           ''/api/v1/request/key'' (JObj [(''phone'', JStr ''967705111013''), (''short_code'', JStr ''777715'')]))
       = Inl ''timeout''
   \<and> requestAuthKey (reject ''timeout'' :: (string, json) adapter) (constructor (merchant (Some ''tok'')))
       = \<lparr>result = Inl (Rejected ''timeout''),
          sent = [request_config (constructor (merchant (Some ''tok'')))
                    ''/api/v1/request/key'' (JObj [(''phone'', JStr ''967705111013''), (''short_code'', JStr ''777715'')])],
          client = constructor (merchant (Some ''tok''))\<rparr>
   \<and> request_config (constructor (merchant (Some ''tok'')))
       ''/api/v1/verify/key'' JNull
     \<in> set (sent (verifyAuthKey (reject ''timeout'' :: (string, VerifyKeyResponse option) adapter) JNull (constructor (merchant (Some ''tok'')))))
   \<and> (reject ''timeout'' :: (string, VerifyKeyResponse option) adapter)
        (request_config (constructor (merchant (Some ''tok'')))
           ''/api/v1/verify/key'' JNull)
       = Inl ''timeout''
   \<and> verifyAuthKey (reject ''timeout'' :: (string, VerifyKeyResponse option) adapter) JNull (constructor (merchant (Some ''tok'')))
       = \<lparr>result = Inl (Rejected ''timeout''),
          sent = [request_config (constructor (merchant (Some ''tok'')))
                    ''/api/v1/verify/key'' JNull],
          client = constructor (merchant (Some ''tok''))\<rparr>
   \<and> request_config (constructor (merchant (Some ''tok'')))
       ''/api/v1/merchant/p2mcl'' JNull
     \<in> set (sent (purchaseRequest (reject ''timeout'' :: (string, json) adapter) JNull (constructor (merchant (Some ''tok'')))))
   \<and> (reject ''timeout'' :: (string, json) adapter)
        (request_config (constructor (merchant (Some ''tok'')))
           ''/api/v1/merchant/p2mcl'' JNull)
       = Inl ''timeout''
   \<and> purchaseRequest (reject ''timeout'' :: (string, json) adapter) JNull (constructor (merchant (Some ''tok'')))
       = \<lparr>result = Inl (Rejected ''timeout''),
          sent = [request_config (constructor (merchant (Some ''tok'')))
                    ''/api/v1/merchant/p2mcl'' JNull],
          client = constructor (merchant (Some ''tok''))\<rparr>
   \<and> request_config (constructor (merchant (Some ''tok'')))
       ''/api/v1/merchant/p2mcl/confirm'' JNull
     \<in> set (sent (purchaseConfirm (reject ''timeout'' :: (string, json) adapter) JNull (constructor (merchant (Some ''tok'')))))
   \<and> (reject ''timeout'' :: (string, json) adapter)
        (request_config (constructor (merchant (Some ''tok'')))
           ''/api/v1/merchant/p2mcl/confirm'' JNull)
       = Inl ''timeout''
   \<and> purchaseConfirm (reject ''timeout'' :: (string, json) adapter) JNull (constructor (merchant (Some ''tok'')))
       = \<lparr>result = Inl (Rejected ''timeout''),
          sent = [request_config (constructor (merchant (Some ''tok'')))
                    ''/api/v1/merchant/p2mcl/confirm'' JNull],
          client = constructor (merchant (Some ''tok''))\<rparr>
   \<and> request_config (constructor (merchant (Some ''tok'')))
       ''/api/v1/merchant/p2mcl/refund'' JNull
     \<in> set (sent (refund (reject ''timeout'' :: (string, json) adapter) JNull (constructor (merchant (Some ''tok'')))))
   \<and> (reject ''timeout'' :: (string, json) adapter)
        (request_config (constructor (merchant (Some ''tok'')))
           ''/api/v1/merchant/p2mcl/refund'' JNull)
       = Inl ''timeout''
   \<and> refund (reject ''timeout'' :: (string, json) adapter) JNull (constructor (merchant (Some ''tok'')))
       = \<lparr>result = Inl (Rejected ''timeout''),
          sent = [request_config (constructor (merchant (Some ''tok'')))
                    ''/api/v1/merchant/p2mcl/refund'' JNull],
          client = constructor (merchant (Some ''tok''))\<rparr>"
  using rejection_propagates
      [where r = "request_config (constructor (merchant (Some ''tok''))) ''/api/v1/request/key'' (JObj [(''phone'', JStr ''967705111013''), (''short_code'', JStr ''777715'')])"
         and httpv = "reject ''timeout'' :: (string, VerifyKeyResponse option) adapter"
         and http = "reject ''timeout'' :: (string, json) adapter"
         and payload = JNull and c = "constructor (merchant (Some ''tok''))" and e = "''timeout''"]
    rejection_propagates
      [where r = "request_config (constructor (merchant (Some ''tok''))) ''/api/v1/verify/key'' JNull"
         and httpv = "reject ''timeout'' :: (string, VerifyKeyResponse option) adapter"
         and http = "reject ''timeout'' :: (string, json) adapter"
         and payload = JNull and c = "constructor (merchant (Some ''tok''))" and e = "''timeout''"]
    rejection_propagates
      [where r = "request_config (constructor (merchant (Some ''tok''))) ''/api/v1/merchant/p2mcl'' JNull"
         and httpv = "reject ''timeout'' :: (string, VerifyKeyResponse option) adapter"
         and http = "reject ''timeout'' :: (string, json) adapter"
         and payload = JNull and c = "constructor (merchant (Some ''tok''))" and e = "''timeout''"]
    rejection_propagates
      [where r = "request_config (constructor (merchant (Some ''tok''))) ''/api/v1/merchant/p2mcl/confirm'' JNull"
         and httpv = "reject ''timeout'' :: (string, VerifyKeyResponse option) adapter"
         and http = "reject ''timeout'' :: (string, json) adapter"
         and payload = JNull and c = "constructor (merchant (Some ''tok''))" and e = "''timeout''"]
    rejection_propagates
      [where r = "request_config (constructor (merchant (Some ''tok''))) ''/api/v1/merchant/p2mcl/refund'' JNull"
         and httpv = "reject ''timeout'' :: (string, VerifyKeyResponse option) adapter"
         and http = "reject ''timeout'' :: (string, json) adapter"
         and payload = JNull and c = "constructor (merchant (Some ''tok''))" and e = "''timeout''"]
  by (simp add: op_defs reject_def constructor_def merchant_def)

section \<open>The configuration is fixed\<close>

text \<open>
  C7: for every sequence of calls on a constructed client, the configuration still holds
  the \<^verbatim>\<open>baseUrl\<close>, \<^verbatim>\<open>phone\<close> and \<^verbatim>\<open>shortCode\<close> given to the constructor, and the
  client differs from the constructed one in its token at most.
\<close>

theorem config_immutable:
  "config (run cs (constructor cfg)) =
     \<lparr>baseUrl = baseUrl cfg, phone = phone cfg, shortCode = shortCode cfg\<rparr>
   \<and> run cs (constructor cfg) = (constructor cfg)\<lparr>token := token (run cs (constructor cfg))\<rparr>"
proof
  show "config (run cs (constructor cfg)) =
      \<lparr>baseUrl = baseUrl cfg, phone = phone cfg, shortCode = shortCode cfg\<rparr>"
    by (simp add: run_config constructor_def)
  show "run cs (constructor cfg) = (constructor cfg)\<lparr>token := token (run cs (constructor cfg))\<rparr>"
    by (rule run_frame)
qed

text \<open>
  The README's client after a key request, a verification that yields the token
  \<^verbatim>\<open>tok\<close>, and a purchase request that the network rejects.
\<close>

theorem config_immutable_witness:
  "run [RequestAuthKey (respond JNull),
        VerifyAuthKey (respond (Some \<lparr>key = Some ''tok''\<rparr>)) JNull,
        PurchaseRequest (reject ()) JNull :: (unit, json, unit) call]
     (constructor (merchant None))
   = (constructor (merchant None))\<lparr>token := Some ''tok''\<rparr>
   \<and> config (run [RequestAuthKey (respond JNull),
        VerifyAuthKey (respond (Some \<lparr>key = Some ''tok''\<rparr>)) JNull,
        PurchaseRequest (reject ()) JNull :: (unit, json, unit) call]
     (constructor (merchant None)))
   = \<lparr>baseUrl = ''https://api.your-floosak-provider.com'', phone = ''967705111013'',
      shortCode = ''777715''\<rparr>"
  using config_immutable
      [of "[RequestAuthKey (respond JNull),
            VerifyAuthKey (respond (Some \<lparr>key = Some ''tok''\<rparr>)) JNull,
            PurchaseRequest (reject ()) JNull :: (unit, json, unit) call]"
          "merchant None"]
  by (simp add: op_defs example_defs post_def Let_def)

section \<open>Forwarding a purchase request\<close>

text \<open>
  C8: for every client whose token passes the guard and every payload,
  \<^verbatim>\<open>purchaseRequest(payload)\<close> issues exactly one request, a POST to
  \<^verbatim>\<open>/api/v1/merchant/p2mcl\<close> whose body is the payload as given.
\<close>

theorem purchaseRequest_forwards_payload:
  assumes "truthy (token c)"
  shows "\<exists>r. sent (purchaseRequest http payload c) = [r]
     \<and> http_method r = ''post''
     \<and> url r = ''/api/v1/merchant/p2mcl''
     \<and> data r = payload"
  using assms by (simp add: op_defs request_config_fields)

text \<open>
  The example payload of the specification, on the README's client with the token
  \<^verbatim>\<open>tok\<close>.
\<close>

theorem purchaseRequest_forwards_payload_witness:
  "truthy (token (constructor (merchant (Some ''tok''))))
   \<and> sent (purchaseRequest (respond JNull :: (unit, json) adapter)
        (JObj [(''source_wallet_id'', JNum 144), (''request_id'', JStr ''r1''),
               (''target_phone'', JStr ''967777841622''), (''amount'', JNum 100),
               (''purpose'', JStr ''x'')])
        (constructor (merchant (Some ''tok''))))
     = [\<lparr>baseURL = ''https://api.your-floosak-provider.com'',
         headers = [(''Content-Type'', ''application/json''),
                    (''Accept'', ''application/json''),
                    (''x-channel'', ''merchant''),
                    (''Authorization'', ''Bearer tok'')],
         http_method = ''post'',
         url = ''/api/v1/merchant/p2mcl'',
         data = JObj [(''source_wallet_id'', JNum 144), (''request_id'', JStr ''r1''),
                      (''target_phone'', JStr ''967777841622''), (''amount'', JNum 100),
                      (''purpose'', JStr ''x'')]\<rparr>]"
  using purchaseRequest_forwards_payload
      [of "constructor (merchant (Some ''tok''))"
          "respond JNull :: (unit, json) adapter"
          "JObj [(''source_wallet_id'', JNum 144), (''request_id'', JStr ''r1''),
                 (''target_phone'', JStr ''967777841622''), (''amount'', JNum 100),
                 (''purpose'', JStr ''x'')]"]
  by (simp add: op_defs example_defs)

section \<open>The empty string as a token\<close>

text \<open>
  C9: on a client made by the constructor whose token is the empty string, each of
  \<^verbatim>\<open>purchaseRequest\<close>, \<^verbatim>\<open>purchaseConfirm\<close> and \<^verbatim>\<open>refund\<close> throws the
  not-authenticated error without issuing a request and without changing the client; no
  request issued by any of the five remote methods carries an \<^verbatim>\<open>Authorization\<close>
  header; and the requests a call issues are those it issues on the same client without
  a token.
\<close>

theorem empty_token_as_absent:
  assumes "token (run cs (constructor cfg)) = Some ''''"
  shows "purchaseRequest http payload (run cs (constructor cfg)) =
        \<lparr>result = Inl not_authenticated, sent = [], client = run cs (constructor cfg)\<rparr>
     \<and> purchaseConfirm http payload (run cs (constructor cfg)) =
        \<lparr>result = Inl not_authenticated, sent = [], client = run cs (constructor cfg)\<rparr>
     \<and> refund http payload (run cs (constructor cfg)) =
        \<lparr>result = Inl not_authenticated, sent = [], client = run cs (constructor cfg)\<rparr>
     \<and> (\<forall>r \<in> set (fst (perform x (run cs (constructor cfg)))).
          header ''Authorization'' r = None)
     \<and> fst (perform x (run cs (constructor cfg))) =
        fst (perform x ((run cs (constructor cfg))\<lparr>token := None\<rparr>))"
proof -
  let ?c = "run cs (constructor cfg)"
  have "header ''Authorization'' r = None" if mem: "r \<in> set (fst (perform x ?c))" for r
  proof -
    obtain path body where r: "r = request_config ?c path body"
      using mem sent_perform by blast
    show ?thesis
      by (simp add: r header_request_config constructed_axiosInstance axios_create_def assms)
  qed
  moreover have "fst (perform x ?c) = fst (perform x (?c\<lparr>token := None\<rparr>))"
    by (cases x)
       (simp_all add: op_defs Let_def request_config_def interceptor_def assms
          split: sum.splits)
  ultimately show ?thesis
    by (simp add: op_defs assms)
qed

text \<open>
  The README's client constructed with the token \<^verbatim>\<open>""\<close>, after a verification
  answered without a body: a refund, and the request of \<^verbatim>\<open>requestAuthKey\<close>.
\<close>

theorem empty_token_as_absent_witness:
  "token (run [VerifyAuthKey (respond None) JNull :: (unit, json, unit) call] (constructor (merchant (Some '''')))) = Some ''''
   \<and> refund (respond JNull :: (unit, json) adapter) JNull
        (run [VerifyAuthKey (respond None) JNull :: (unit, json, unit) call] (constructor (merchant (Some ''''))))
     = \<lparr>result = Inl not_authenticated, sent = [],
        client = (constructor (merchant (Some '''')))\<rparr>
   \<and> map (header ''Authorization'')
        (fst (perform (RequestAuthKey (respond JNull) :: (unit, json, unit) call)
           (run [VerifyAuthKey (respond None) JNull :: (unit, json, unit) call] (constructor (merchant (Some '''')))))) = [None]"
  using empty_token_as_absent
      [of "[VerifyAuthKey (respond None) JNull :: (unit, json, unit) call]" "merchant (Some '''')"
          "respond JNull :: (unit, json) adapter" JNull
          "RequestAuthKey (respond JNull) :: (unit, json, unit) call"]
  by (simp add: op_defs example_defs post_def Let_def)

section \<open>A token, once set, stays\<close>

text \<open>
  C10: if the token of a client is a non-empty string, it is a non-empty string after
  every sequence of calls: no method clears it, and \<^verbatim>\<open>verifyAuthKey\<close> replaces it
  only by a non-empty \<^verbatim>\<open>key\<close>.
\<close>

theorem truthy_token_preserved:
  assumes "truthy (token c)"
  shows "truthy (token (run cs c))"
  using assms
proof (induction cs arbitrary: c)
  case Nil
  then show ?case by simp
next
  case (Cons x xs)
  from Cons.prems have "truthy (token (snd (perform x c)))"
    by (rule perform_truthy)
  then have "truthy (token (run xs (snd (perform x c))))"
    by (rule Cons.IH)
  then show ?case by simp
qed

text \<open>
  A client with the token \<^verbatim>\<open>old\<close>: a verification answered with an empty key, one
  answered without a body, a rejected refund, and a verification answered with the key
  \<^verbatim>\<open>new\<close>.
\<close>

theorem truthy_token_preserved_witness:
  "truthy (token (constructor (merchant (Some ''old''))))
   \<and> token (run [VerifyAuthKey (respond (Some \<lparr>key = Some ''''\<rparr>)) JNull,
                 VerifyAuthKey (respond None) JNull,
                 Refund (reject ()) JNull :: (unit, json, unit) call]
        (constructor (merchant (Some ''old'')))) = Some ''old''
   \<and> truthy (token (run [VerifyAuthKey (respond (Some \<lparr>key = Some ''''\<rparr>)) JNull,
                 VerifyAuthKey (respond None) JNull,
                 Refund (reject ()) JNull :: (unit, json, unit) call]
        (constructor (merchant (Some ''old'')))))
   \<and> token (run [VerifyAuthKey (respond (Some \<lparr>key = Some ''new''\<rparr>)) JNull :: (unit, json, unit) call]
        (constructor (merchant (Some ''old'')))) = Some ''new''"
  using truthy_token_preserved
      [of "constructor (merchant (Some ''old''))"
          "[VerifyAuthKey (respond (Some \<lparr>key = Some ''''\<rparr>)) JNull,
            VerifyAuthKey (respond None) JNull,
            Refund (reject ()) JNull :: (unit, json, unit) call]"]
  by (simp add: op_defs example_defs post_def Let_def)

end
